theory Spec2Isabelle
  imports Complex_Main "HOL-Library.Sublist"
begin

section \<open>Python values decoded from the tracker's output\<close>

text \<open>
  The worker (\<^verbatim>\<open>beads-worker.py\<close>) reads tasks as whatever \<^verbatim>\<open>json.loads\<close> returns and
  accesses them with \<^verbatim>\<open>.get\<close>, comparison and truth tests, so the model keeps Python's
  dynamic values. A float is its exact value (every finite double is a rational; Python
  compares an int with a float exactly), an infinity or a NaN. Strings are lists of
  characters, each character a code point below 256. A dict is the list of its items.
\<close>

datatype pyfloat = FNum rat | FPosInf | FNegInf | FNaN

datatype json =
    JNull
  | JBool bool
  | JInt int
  | JFloat pyfloat
  | JStr string
  | JArr "json list"
  | JObj "(string \<times> json) list"

text \<open>The exceptions of the worker that nothing catches.\<close>

datatype exn = TypeError | AttributeError | KeyError | IndexError

text \<open>\<^verbatim>\<open>d.get(k, dflt)\<close> on a dict.\<close>

definition dict_get :: "(string \<times> json) list \<Rightarrow> string \<Rightarrow> json \<Rightarrow> json" where
  "dict_get d k dflt = (case map_of d k of Some v \<Rightarrow> v | None \<Rightarrow> dflt)"

text \<open>\<^verbatim>\<open>v.get(k, dflt)\<close> on any value: only a dict has the method.\<close>

fun py_get :: "json \<Rightarrow> string \<Rightarrow> json \<Rightarrow> exn + json" where
  "py_get (JObj d) k dflt = Inr (dict_get d k dflt)"
| "py_get _ k dflt = Inl AttributeError"

text \<open>Truth value of a Python value (\<^verbatim>\<open>if not v\<close>).\<close>

fun truthy :: "json \<Rightarrow> bool" where
  "truthy JNull = False"
| "truthy (JBool b) = b"
| "truthy (JInt n) = (n \<noteq> 0)"
| "truthy (JFloat f) = (f \<noteq> FNum 0)"
| "truthy (JStr s) = (s \<noteq> [])"
| "truthy (JArr xs) = (xs \<noteq> [])"
| "truthy (JObj d) = (d \<noteq> [])"

text \<open>
  \<^verbatim>\<open>for t in v\<close>: a list gives its elements, a dict its keys, a string its characters;
  nothing else is iterable.
\<close>

fun py_iter :: "json \<Rightarrow> exn + json list" where
  "py_iter (JArr xs) = Inr xs"
| "py_iter (JObj d) = Inr (map JStr (remdups (map fst d)))"
| "py_iter (JStr s) = Inr (map (\<lambda>c. JStr [c]) s)"
| "py_iter _ = Inl TypeError"

text \<open>The numeric reading of a value: \<^verbatim>\<open>bool\<close> is a subclass of \<^verbatim>\<open>int\<close>.\<close>

fun as_num :: "json \<Rightarrow> pyfloat option" where
  "as_num (JInt n) = Some (FNum (of_int n))"
| "as_num (JBool b) = Some (FNum (if b then 1 else 0))"
| "as_num (JFloat f) = Some f"
| "as_num _ = None"

text \<open>IEEE comparison: every comparison with a NaN is false.\<close>

fun num_lt :: "pyfloat \<Rightarrow> pyfloat \<Rightarrow> bool" where
  "num_lt (FNum a) (FNum b) = (a < b)"
| "num_lt FNegInf (FNum b) = True"
| "num_lt FNegInf FPosInf = True"
| "num_lt (FNum a) FPosInf = True"
| "num_lt _ _ = False"

fun num_le :: "pyfloat \<Rightarrow> pyfloat \<Rightarrow> bool" where
  "num_le (FNum a) (FNum b) = (a \<le> b)"
| "num_le FNegInf (FNum b) = True"
| "num_le FNegInf FNegInf = True"
| "num_le FNegInf FPosInf = True"
| "num_le (FNum a) FPosInf = True"
| "num_le FPosInf FPosInf = True"
| "num_le _ _ = False"

text \<open>
  \<^verbatim>\<open>v <= n\<close> for an int \<open>n\<close>: a number is compared by value; \<^verbatim>\<open>None\<close>, a string, a list
  or a dict against an int raises \<^verbatim>\<open>TypeError\<close>.
\<close>

definition py_le_int :: "json \<Rightarrow> int \<Rightarrow> exn + bool" where
  "py_le_int v n =
     (case as_num v of
        Some x \<Rightarrow> Inr (num_le x (FNum (of_int n)))
      | None \<Rightarrow> Inl TypeError)"

text \<open>
  \<^verbatim>\<open>a < b\<close> between two sort keys. The keys that reach the sort have all been compared
  with \<^verbatim>\<open>1\<close> by the filter, which raises on everything that is not a number, so only
  the comparison of numbers is modelled; any other operand is reported as \<^verbatim>\<open>TypeError\<close>.
\<close>

definition py_lt :: "json \<Rightarrow> json \<Rightarrow> exn + bool" where
  "py_lt a b =
     (case as_num a of
        None \<Rightarrow> Inl TypeError
      | Some x \<Rightarrow>
          (case as_num b of
             None \<Rightarrow> Inl TypeError
           | Some y \<Rightarrow> Inr (num_lt x y)))"

section \<open>Selection: filter and sort of the ready tasks (\<^verbatim>\<open>main\<close>, lines 120 to 127)\<close>

text \<open>
  \<^verbatim>\<open>[t for t in tasks if t.get('priority', 999) <= 1]\<close>, elements in order; the first
  exception ends the comprehension.
\<close>

fun filter_high :: "json list \<Rightarrow> exn + json list" where
  "filter_high [] = Inr []"
| "filter_high (t # ts) =
     (case py_get t ''priority'' (JInt 999) of
        Inl x \<Rightarrow> Inl x
      | Inr p \<Rightarrow>
          (case py_le_int p 1 of
             Inl x \<Rightarrow> Inl x
           | Inr keep \<Rightarrow>
               (case filter_high ts of
                  Inl x \<Rightarrow> Inl x
                | Inr r \<Rightarrow> Inr (if keep then t # r else r))))"

text \<open>
  \<^verbatim>\<open>high_priority_tasks.sort(key=lambda x: x.get('priority', 999))\<close>. \<^verbatim>\<open>list.sort\<close>
  computes the key of every element first, then sorts the pairs by key with \<^verbatim>\<open><\<close>
  alone, and is stable. On keys that \<^verbatim>\<open><\<close> orders totally the stable ascending
  arrangement is unique; it is computed here by insertion from the right, each
  element going in front of the first one that is not smaller.
\<close>

fun decorate :: "json list \<Rightarrow> exn + (json \<times> json) list" where
  "decorate [] = Inr []"
| "decorate (t # ts) =
     (case py_get t ''priority'' (JInt 999) of
        Inl x \<Rightarrow> Inl x
      | Inr k \<Rightarrow>
          (case decorate ts of
             Inl x \<Rightarrow> Inl x
           | Inr r \<Rightarrow> Inr ((k, t) # r)))"

fun insort_pair :: "json \<times> json \<Rightarrow> (json \<times> json) list \<Rightarrow> exn + (json \<times> json) list" where
  "insort_pair p [] = Inr [p]"
| "insort_pair p (q # qs) =
     (case py_lt (fst q) (fst p) of
        Inl x \<Rightarrow> Inl x
      | Inr smaller \<Rightarrow>
          (if smaller
           then (case insort_pair p qs of Inl x \<Rightarrow> Inl x | Inr r \<Rightarrow> Inr (q # r))
           else Inr (p # q # qs)))"

fun sort_pairs :: "(json \<times> json) list \<Rightarrow> exn + (json \<times> json) list" where
  "sort_pairs [] = Inr []"
| "sort_pairs (p # ps) =
     (case sort_pairs ps of
        Inl x \<Rightarrow> Inl x
      | Inr r \<Rightarrow> insort_pair p r)"

definition sort_by_priority :: "json list \<Rightarrow> exn + json list" where
  "sort_by_priority ts =
     (case decorate ts of
        Inl x \<Rightarrow> Inl x
      | Inr kts \<Rightarrow>
          (case sort_pairs kts of
             Inl x \<Rightarrow> Inl x
           | Inr r \<Rightarrow> Inr (map snd r)))"

text \<open>Lines 120 and 121 together, from the value \<^verbatim>\<open>get_ready_tasks\<close> returned.\<close>

definition high_priority_tasks :: "json \<Rightarrow> exn + json list" where
  "high_priority_tasks tasks =
     (case py_iter tasks of
        Inl x \<Rightarrow> Inl x
      | Inr ts \<Rightarrow>
          (case filter_high ts of
             Inl x \<Rightarrow> Inl x
           | Inr hp \<Rightarrow> sort_by_priority hp))"

text \<open>
  For the statements: the numeric priority of a task (absent where the task is no dict
  or its priority no number) and the test of the filter as a predicate.
\<close>

definition priority_of :: "json \<Rightarrow> pyfloat option" where
  "priority_of t =
     (case t of
        JObj d \<Rightarrow> as_num (dict_get d ''priority'' (JInt 999))
      | _ \<Rightarrow> None)"

definition eligible :: "json \<Rightarrow> bool" where
  "eligible t =
     (case priority_of t of
        Some x \<Rightarrow> num_le x (FNum 1)
      | None \<Rightarrow> False)"

text \<open>
  For the proofs about the sort: the numeric value of a key, and the keys that \<^verbatim>\<open><\<close>
  orders totally (numbers other than NaN).
\<close>

definition key_val :: "json \<Rightarrow> pyfloat" where
  "key_val k = (case as_num k of Some x \<Rightarrow> x | None \<Rightarrow> FNaN)"

definition ordered_key :: "json \<Rightarrow> bool" where
  "ordered_key k = (case as_num k of Some x \<Rightarrow> x \<noteq> FNaN | None \<Rightarrow> False)"

section \<open>The environment of a run\<close>

text \<open>
  The worker is sequential and deterministic; everything else is the outside world,
  consulted through three library calls. The world is an oracle: what the call made
  as the \<open>n\<close>-th interaction with these arguments answers. \<^verbatim>\<open>json.loads\<close> is a library
  function and a parameter too: \<open>None\<close> is \<^verbatim>\<open>JSONDecodeError\<close>.
\<close>

datatype popen_result =
    PopenRaises string
  | PopenExits string string int

datatype run_result =
    RunRaises string
  | RunExits int

record env =
  which :: "nat \<Rightarrow> string \<Rightarrow> bool"
  popen :: "nat \<Rightarrow> string list \<Rightarrow> popen_result"
  subprocess_run :: "nat \<Rightarrow> string list \<Rightarrow> string \<Rightarrow> run_result"
  json_loads :: "string \<Rightarrow> json option"

text \<open>What the worker prints, one constructor for each \<^verbatim>\<open>print\<close> of the source.\<close>

datatype msg =
    ErrorRunningCommand "string list" string
  | CallingGemini "string list option"
  | FailedToCall string
  | NotInGitRepo
  | BdNotFound
  | ErrorFetchingTasks string
  | ErrorParsingJson string
  | ErrorFetchingDetails string string
  | NoMoreWork
  | TaskWithoutId
  | CouldNotLoadDetails string
  | Rule80
  | Processing string json json
  | Decomposing json
  | CouldNotVerify string
  | NotClosed string
  | SuccessfullyProcessed string

text \<open>The interactions with the world, in the order they are made.\<close>

datatype call =
    Which string
  | Popen "string list"
  | SubprocessRun "string list" string

record state =
  clock :: nat
  printed :: "msg list"
  calls :: "call list"

text \<open>
  How a function of the worker ends: it returns, \<^verbatim>\<open>sys.exit(c)\<close> was called, or an
  exception that nothing catches was raised.
\<close>

datatype 'a outcome = Ret 'a | SysExit int | Raise exn

definition say :: "msg \<Rightarrow> state \<Rightarrow> state" where
  "say m s = s\<lparr>printed := printed s @ [m]\<rparr>"

definition tick :: "call \<Rightarrow> state \<Rightarrow> state" where
  "tick c s = s\<lparr>clock := Suc (clock s), calls := calls s @ [c]\<rparr>"

section \<open>Helper functions of the worker\<close>

definition AGENT :: string where
  "AGENT = ''gemini''"

definition AGENT_MODEL :: string where
  "AGENT_MODEL = ''gemini-3-pro-preview''"

text \<open>\<^verbatim>\<open>str.strip()\<close>: the characters below 256 for which \<^verbatim>\<open>isspace()\<close> holds.\<close>

definition py_isspace :: "char \<Rightarrow> bool" where
  "py_isspace c = ((of_char c :: nat) \<in> {9, 10, 11, 12, 13, 28, 29, 30, 31, 32, 133, 160})"

definition py_strip :: "string \<Rightarrow> string" where
  "py_strip s = rev (dropWhile py_isspace (rev (dropWhile py_isspace s)))"

text \<open>The dict \<^verbatim>\<open>run_shell_command\<close> returns.\<close>

record proc_result =
  stdout :: string
  stderr :: string
  returncode :: int

text \<open>
  \<^verbatim>\<open>run_shell_command(cmd)\<close> as every caller uses it (no input text, output captured),
  on a command of strings. An exception of \<^verbatim>\<open>Popen\<close> or \<^verbatim>\<open>communicate\<close> is caught,
  reported, and \<^verbatim>\<open>None\<close> is returned.
\<close>

definition run_shell_command :: "env \<Rightarrow> string list \<Rightarrow> state \<Rightarrow> proc_result option \<times> state" where
  "run_shell_command e cmd s =
     (case popen e (clock s) cmd of
        PopenRaises err \<Rightarrow> (None, say (ErrorRunningCommand cmd err) (tick (Popen cmd) s))
      | PopenExits out err rc \<Rightarrow>
          (Some \<lparr>stdout = py_strip out, stderr = py_strip err, returncode = rc\<rparr>,
           tick (Popen cmd) s))"

text \<open>The command line \<^verbatim>\<open>call_gemini\<close> builds (lines 41 to 48).\<close>

definition gemini_cmd :: "string list option \<Rightarrow> string list" where
  "gemini_cmd allowed_tools =
     [AGENT, ''--yolo'', ''--model'', AGENT_MODEL]
     @ (case allowed_tools of
          None \<Rightarrow> []
        | Some tools \<Rightarrow>
            (if tools = [] then []
             else if ''all'' \<in> set tools then [''--allowed-tools=all'']
             else map (\<lambda>tool. ''--allowed-tools='' @ tool) tools))"

definition call_gemini :: "env \<Rightarrow> string \<Rightarrow> string list option \<Rightarrow> state \<Rightarrow> bool \<times> state" where
  "call_gemini e prompt allowed_tools s =
     (let cmd = gemini_cmd allowed_tools;
          s1 = say (CallingGemini allowed_tools) s
      in case subprocess_run e (clock s1) cmd prompt of
           RunExits rc \<Rightarrow> (rc = 0, tick (SubprocessRun cmd prompt) s1)
         | RunRaises err \<Rightarrow> (False, say (FailedToCall err) (tick (SubprocessRun cmd prompt) s1)))"

definition check_git_repo :: "env \<Rightarrow> state \<Rightarrow> unit outcome \<times> state" where
  "check_git_repo e s =
     (case run_shell_command e [''git'', ''rev-parse'', ''--is-inside-work-tree''] s of
        (None, s1) \<Rightarrow> (SysExit 1, say NotInGitRepo s1)
      | (Some result, s1) \<Rightarrow>
          (if returncode result \<noteq> 0 then (SysExit 1, say NotInGitRepo s1)
           else (Ret (), s1)))"

text \<open>
  \<^verbatim>\<open>get_ready_tasks\<close>. On line 86 the argument of \<^verbatim>\<open>print\<close> reads \<^verbatim>\<open>result["stderr"]\<close>;
  where \<^verbatim>\<open>result\<close> is \<^verbatim>\<open>None\<close> that subscript raises \<^verbatim>\<open>TypeError\<close> before anything
  is printed or returned.
\<close>

definition get_ready_tasks :: "env \<Rightarrow> state \<Rightarrow> json outcome \<times> state" where
  "get_ready_tasks e s =
     (if \<not> which e (clock s) ''bd''
      then (SysExit 1, say BdNotFound (tick (Which ''bd'') s))
      else
        (case run_shell_command e [''bd'', ''ready'', ''--json''] (tick (Which ''bd'') s) of
           (None, s1) \<Rightarrow> (Raise TypeError, s1)
         | (Some result, s1) \<Rightarrow>
             (if returncode result \<noteq> 0
              then (Ret (JArr []), say (ErrorFetchingTasks (stderr result)) s1)
              else
                (case json_loads e (stdout result) of
                   Some tasks \<Rightarrow> (Ret tasks, s1)
                 | None \<Rightarrow> (Ret (JArr []), say (ErrorParsingJson (stdout result)) s1)))))"

text \<open>
  \<^verbatim>\<open>data[0]\<close>: the first element of a list, the first character of a string; a dict
  decoded from JSON has string keys only, so the key \<^verbatim>\<open>0\<close> is missing; a number,
  a bool or \<^verbatim>\<open>None\<close> cannot be subscripted.
\<close>

fun py_index0 :: "json \<Rightarrow> exn + json" where
  "py_index0 (JArr (x # xs)) = Inr x"
| "py_index0 (JArr []) = Inl IndexError"
| "py_index0 (JStr (c # cs)) = Inr (JStr [c])"
| "py_index0 (JStr []) = Inl IndexError"
| "py_index0 (JObj d) = Inl KeyError"
| "py_index0 _ = Inl TypeError"

text \<open>
  \<^verbatim>\<open>get_task_details\<close>, on an id that is a string. The f-string of line 99 reads
  \<^verbatim>\<open>result['stderr']\<close>, as line 86 does. \<^verbatim>\<open>None\<close> is returned as \<open>JNull\<close>.
\<close>

definition get_task_details :: "env \<Rightarrow> string \<Rightarrow> state \<Rightarrow> json outcome \<times> state" where
  "get_task_details e task_id s =
     (case run_shell_command e [''bd'', ''show'', task_id, ''--json''] s of
        (None, s1) \<Rightarrow> (Raise TypeError, s1)
      | (Some result, s1) \<Rightarrow>
          (if returncode result \<noteq> 0
           then (Ret JNull, say (ErrorFetchingDetails task_id (stderr result)) s1)
           else
             (case json_loads e (stdout result) of
                None \<Rightarrow> (Ret JNull, s1)
              | Some data \<Rightarrow>
                  (if truthy data
                   then (case py_index0 data of
                           Inl x \<Rightarrow> (Raise x, s1)
                         | Inr v \<Rightarrow> (Ret v, s1))
                   else (Ret JNull, s1)))))"

section \<open>The instructions for the agent\<close>

text \<open>The f-string of lines 150 to 154.\<close>

definition decompose_prompt :: "string \<Rightarrow> string" where
  "decompose_prompt task_id =
     ''\<newline>''
      @ ''load and use the spec skill to decompose ''
      @ task_id
      @ '' into actionable \<newline>''
      @ ''tasks. Ensure each task has clear acceptance criteria and ''
      @ ''verification instructions.\<newline>''
      @ ''Focus on breaking it down into items that can be implemented in ''
      @ ''single sittings.\<newline>''"

text \<open>
  The f-string of lines 162 to 175. The text between the double quotes after
  \<^verbatim>\<open>--reason\<close> has a name of its own.
\<close>

definition close_reason :: string where
  "close_reason = ''Completed implementation, verified ACs, and checked file bounds.''"

definition exec_prompt :: "string \<Rightarrow> string" where
  "exec_prompt task_id =
     ''\<newline>''
      @ ''load and use the exec skill to perform: exec ''
      @ task_id
      @ '' --instructions '\<newline>''
      @ ''    Activate skill-exec. Perform the requested work for ''
      @ task_id
      @ ''.\<newline>''
      @ ''    \<newline>''
      @ ''    CRITICAL QUALITY CHECKS:\<newline>''
      @ ''    1. FILE SIZE: If any file you modify or create exceeds 600 lines, ''
      @ ''you MUST decompose it into smaller, logical modules or components. ''
      @ ''After decomposition, verify that the logic is preserved and there are ''
      @ ''no regressions.\<newline>''
      @ ''    2. COMPILATION: Confirm the code compiles cleanly (e.g., npm run ''
      @ ''build, tsc, or equivalent).\<newline>''
      @ ''    3. INSPECTION: Perform a thorough code inspection to confirm ALL ''
      @ ''acceptance criteria for ''
      @ task_id
      @ '' are met.\<newline>''
      @ ''    \<newline>''
      @ ''    FINALIZATION:\<newline>''
      @ ''    - Commit your changes using conventional commit messages ''
      @ ''referencing ''
      @ task_id
      @ ''.\<newline>''
      @ ''    - Close the bead using: bd close ''
      @ task_id
      @ '' --reason \"''
      @ close_reason
      @ ''\"\<newline>'\<newline>''"



section \<open>The loop of \<^verbatim>\<open>main\<close>\<close>

text \<open>How one pass through the body of \<^verbatim>\<open>while True\<close> ends when nothing halts it.\<close>

datatype flow = Continue | Break

text \<open>
  Lines 180 to 190: the check after the agent has run the exec instruction. Both
  \<^verbatim>\<open>sys.exit(1)\<close> follow a \<^verbatim>\<open>print\<close> that names the task.
\<close>

definition verify_closed :: "env \<Rightarrow> string \<Rightarrow> state \<Rightarrow> flow outcome \<times> state" where
  "verify_closed e task_id s =
     (case get_task_details e task_id s of
        (SysExit c, s1) \<Rightarrow> (SysExit c, s1)
      | (Raise x, s1) \<Rightarrow> (Raise x, s1)
      | (Ret final_task_details, s1) \<Rightarrow>
          (if \<not> truthy final_task_details
           then (SysExit 1, say (CouldNotVerify task_id) s1)
           else
             (case py_get final_task_details ''status'' JNull of
                Inl x \<Rightarrow> (Raise x, s1)
              | Inr final_status \<Rightarrow>
                  (if final_status \<noteq> JStr ''closed''
                   then (SysExit 1, say (NotClosed task_id) s1)
                   else (Ret Continue, say (SuccessfullyProcessed task_id) s1)))))"

text \<open>
  Lines 135 to 190, for the id of the chosen task. The result of the decomposition
  call is bound to \<^verbatim>\<open>success\<close> and never read; the result of the exec call is dropped.
\<close>

definition process_task :: "env \<Rightarrow> string \<Rightarrow> state \<Rightarrow> flow outcome \<times> state" where
  "process_task e task_id s =
     (case get_task_details e task_id s of
        (SysExit c, s1) \<Rightarrow> (SysExit c, s1)
      | (Raise x, s1) \<Rightarrow> (Raise x, s1)
      | (Ret task_details, s1) \<Rightarrow>
          (if \<not> truthy task_details
           then (Ret Continue, say (CouldNotLoadDetails task_id) s1)
           else
             (case py_get task_details ''issue_type'' JNull of
                Inl x \<Rightarrow> (Raise x, s1)
              | Inr task_type \<Rightarrow>
                  (case py_get task_details ''title'' JNull of
                     Inl x \<Rightarrow> (Raise x, s1)
                   | Inr task_title \<Rightarrow>
                       (let s2 = say Rule80 (say (Processing task_id task_type task_title)
                                   (say Rule80 s1))
                        in if task_type \<in> set [JStr ''epic'', JStr ''feature'']
                           then
                             (case call_gemini e (decompose_prompt task_id) (Some [''all''])
                                     (say (Decomposing task_type) s2) of
                                (success, s3) \<Rightarrow> (Ret Continue, s3))
                           else
                             (case call_gemini e (exec_prompt task_id) (Some [''all'']) s2 of
                                (success, s3) \<Rightarrow> verify_closed e task_id s3))))))"

text \<open>
  One pass through the body (lines 116 to 190). An id that is true but no string
  (a number, \<^verbatim>\<open>true\<close>, a list, a dict) goes into the command of line 97: \<^verbatim>\<open>Popen\<close>
  raises \<^verbatim>\<open>TypeError\<close> on it before any process starts, and the handler of line 36
  raises \<^verbatim>\<open>TypeError\<close> again in \<^verbatim>\<open>' '.join(cmd)\<close>, which nothing catches.
\<close>

definition loop_body :: "env \<Rightarrow> state \<Rightarrow> flow outcome \<times> state" where
  "loop_body e s =
     (case get_ready_tasks e s of
        (SysExit c, s1) \<Rightarrow> (SysExit c, s1)
      | (Raise x, s1) \<Rightarrow> (Raise x, s1)
      | (Ret tasks, s1) \<Rightarrow>
          (case high_priority_tasks tasks of
             Inl x \<Rightarrow> (Raise x, s1)
           | Inr [] \<Rightarrow> (Ret Break, say NoMoreWork s1)
           | Inr (current_task # rest) \<Rightarrow>
               (case py_get current_task ''id'' JNull of
                  Inl x \<Rightarrow> (Raise x, s1)
                | Inr task_id \<Rightarrow>
                    (if \<not> truthy task_id
                     then (Ret Continue, say TaskWithoutId s1)
                     else
                       (case task_id of
                          JStr tid \<Rightarrow> process_task e tid s1
                        | _ \<Rightarrow> (Raise TypeError, s1))))))"

text \<open>
  \<^verbatim>\<open>while True\<close> may run for ever: the loop takes fuel, one unit for each pass, and
  \<open>None\<close> says the fuel ran out before the loop ended.
\<close>

fun main_loop :: "env \<Rightarrow> nat \<Rightarrow> state \<Rightarrow> (unit outcome \<times> state) option" where
  "main_loop e 0 s = None"
| "main_loop e (Suc n) s =
     (case loop_body e s of
        (Ret Continue, s1) \<Rightarrow> main_loop e n s1
      | (Ret Break, s1) \<Rightarrow> Some (Ret (), s1)
      | (SysExit c, s1) \<Rightarrow> Some (SysExit c, s1)
      | (Raise x, s1) \<Rightarrow> Some (Raise x, s1))"

definition main :: "env \<Rightarrow> nat \<Rightarrow> state \<Rightarrow> (unit outcome \<times> state) option" where
  "main e fuel s =
     (case check_git_repo e s of
        (Ret u, s1) \<Rightarrow> main_loop e fuel s1
      | (SysExit c, s1) \<Rightarrow> Some (SysExit c, s1)
      | (Raise x, s1) \<Rightarrow> Some (Raise x, s1))"

text \<open>
  The exit status of the process: 0 when \<^verbatim>\<open>main\<close> returns, the argument of
  \<^verbatim>\<open>sys.exit\<close>, and 1 when the interpreter ends on an exception nothing caught.
\<close>

fun exit_status :: "unit outcome \<Rightarrow> int" where
  "exit_status (Ret u) = 0"
| "exit_status (SysExit c) = c"
| "exit_status (Raise x) = 1"

text \<open>The interactions that run the agent.\<close>

definition is_agent_call :: "call \<Rightarrow> bool" where
  "is_agent_call c = (case c of SubprocessRun cmd prompt \<Rightarrow> True | _ \<Rightarrow> False)"

definition init_state :: state where
  "init_state = \<lparr>clock = 0, printed = [], calls = []\<rparr>"

definition task_bd2 :: json where
  "task_bd2 = JObj [(''id'', JStr ''bd-2''), (''priority'', JInt 1), (''issue_type'', JStr ''epic'')]"
definition task_bd5 :: json where
  "task_bd5 = JObj [(''id'', JStr ''bd-5''), (''priority'', JInt 0), (''issue_type'', JStr ''task'')]"
definition task_bd7 :: json where
  "task_bd7 = JObj [(''id'', JStr ''bd-7''), (''priority'', JInt 0), (''issue_type'', JStr ''bug'')]"
definition task_bd9 :: json where
  "task_bd9 = JObj [(''id'', JStr ''bd-9''), (''priority'', JInt 2), (''issue_type'', JStr ''task'')]"
definition task_bd3 :: json where
  "task_bd3 = JObj [(''id'', JStr ''bd-3''), (''issue_type'', JStr ''task'')]"
definition demo_ready :: json where
  "demo_ready = JArr [task_bd2, task_bd5, task_bd7, task_bd9, task_bd3]"


text \<open>
  A small world for the examples: the texts the tracker prints, what \<^verbatim>\<open>json.loads\<close>
  makes of each of them, and an environment given by the answers to the ready query, to
  the show query (by time) and to the agent run.
\<close>

definition txt_ready_low :: string where
  "txt_ready_low = ''[{\"id\": \"bd-9\", \"priority\": 2}]''"

definition txt_ready_noid :: string where
  "txt_ready_noid = ''[{\"id\": \"\", \"priority\": 0}]''"

definition txt_ready_missing_id :: string where
  "txt_ready_missing_id = ''[{\"priority\": 0}]''"

definition txt_ready_bd5 :: string where
  "txt_ready_bd5 = ''[{\"id\": \"bd-5\", \"priority\": 0}]''"

definition txt_show_bd5_open :: string where
  "txt_show_bd5_open = ''[{\"id\": \"bd-5\", \"issue_type\": \"task\", \"status\": \"open\"}]''"

definition txt_show_bd5_closed :: string where
  "txt_show_bd5_closed = ''[{\"id\": \"bd-5\", \"issue_type\": \"task\", \"status\": \"closed\"}]''"

definition txt_show_bd2 :: string where
  "txt_show_bd2 = ''[{\"id\": \"bd-2\", \"issue_type\": \"epic\", \"status\": \"open\"}]''"

definition txt_empty_list :: string where
  "txt_empty_list = ''[]''"

definition txt_error_object :: string where
  "txt_error_object = ''{\"error\": \"not found\"}''"

definition demo_loads :: "string \<Rightarrow> json option" where
  "demo_loads s =
     (if s = txt_ready_low then Some (JArr [JObj [(''id'', JStr ''bd-9''), (''priority'', JInt 2)]])
      else if s = txt_ready_noid then Some (JArr [JObj [(''id'', JStr ''''), (''priority'', JInt 0)]])
      else if s = txt_ready_missing_id then Some (JArr [JObj [(''priority'', JInt 0)]])
      else if s = txt_ready_bd5 then Some (JArr [JObj [(''id'', JStr ''bd-5''), (''priority'', JInt 0)]])
      else if s = txt_show_bd5_open
        then Some (JArr [JObj [(''id'', JStr ''bd-5''), (''issue_type'', JStr ''task''),
                               (''status'', JStr ''open'')]])
      else if s = txt_show_bd5_closed
        then Some (JArr [JObj [(''id'', JStr ''bd-5''), (''issue_type'', JStr ''task''),
                               (''status'', JStr ''closed'')]])
      else if s = txt_show_bd2
        then Some (JArr [JObj [(''id'', JStr ''bd-2''), (''issue_type'', JStr ''epic''),
                               (''status'', JStr ''open'')]])
      else if s = txt_empty_list then Some (JArr [])
      else if s = txt_error_object then Some (JObj [(''error'', JStr ''not found'')])
      else None)"

definition demo_env :: "bool \<Rightarrow> popen_result \<Rightarrow> (nat \<Rightarrow> popen_result) \<Rightarrow> run_result \<Rightarrow> env" where
  "demo_env found ready shown agent =
     \<lparr>which = (\<lambda>t name. found),
      popen = (\<lambda>t cmd. if cmd = [''bd'', ''ready'', ''--json''] then ready else shown t),
      subprocess_run = (\<lambda>t cmd prompt. agent),
      json_loads = demo_loads\<rparr>"

text \<open>The three prints of lines 143 to 145, for the detail record \<open>d\<close> of task \<open>task_id\<close>.\<close>

definition announce :: "string \<Rightarrow> (string \<times> json) list \<Rightarrow> state \<Rightarrow> state" where
  "announce task_id d s =
     say Rule80 (say (Processing task_id (dict_get d ''issue_type'' JNull) (dict_get d ''title'' JNull))
       (say Rule80 s))"

lemma num_lt_asym: "num_lt a b \<Longrightarrow> \<not> num_lt b a"
  by (cases a; cases b) auto

lemma num_lt_irrefl: "\<not> num_lt a a"
  by (cases a) auto

lemma not_lt_iff_le: "a \<noteq> FNaN \<Longrightarrow> b \<noteq> FNaN \<Longrightarrow> (\<not> num_lt b a) = num_le a b"
  by (cases a; cases b) auto

lemma num_lt_le_trans: "num_lt a b \<Longrightarrow> num_le b c \<Longrightarrow> num_lt a c"
  by (cases a; cases b; cases c) auto

lemma num_le_trans: "num_le a b \<Longrightarrow> num_le b c \<Longrightarrow> num_le a c"
  by (cases a; cases b; cases c) auto

lemma num_lt_imp_le: "num_lt a b \<Longrightarrow> num_le a b"
  by (cases a; cases b) auto

lemma num_le_not_nan: "num_le a b \<Longrightarrow> a \<noteq> FNaN \<and> b \<noteq> FNaN"
  by (cases a; cases b) auto

lemma filter_high_eq:
  "filter_high ts = Inr hp \<Longrightarrow> hp = filter eligible ts"
proof (induction ts arbitrary: hp)
  case Nil
  then show ?case by simp
next
  case (Cons t ts)
  then show ?case
    by (cases t) (auto simp: eligible_def priority_of_def py_le_int_def split: sum.splits option.splits if_splits)
qed

lemma filter_high_dicts:
  "filter_high ts = Inr hp \<Longrightarrow> \<forall>t\<in>set ts. \<exists>d. t = JObj d"
proof (induction ts arbitrary: hp)
  case Nil
  then show ?case by simp
next
  case (Cons t ts)
  then show ?case
    by (cases t) (auto split: sum.splits)
qed

lemma py_lt_ordered:
  "ordered_key a \<Longrightarrow> ordered_key b \<Longrightarrow> py_lt a b = Inr (num_lt (key_val a) (key_val b))"
  by (auto simp: ordered_key_def key_val_def py_lt_def split: option.splits)

lemma ordered_key_val: "ordered_key a \<Longrightarrow> key_val a \<noteq> FNaN"
  by (auto simp: ordered_key_def key_val_def split: option.splits)

lemma insort_pair_ok:
  assumes "ordered_key (fst p)" and "\<forall>q\<in>set qs. ordered_key (fst q)"
  shows "\<exists>r. insort_pair p qs = Inr r \<and> set r = insert p (set qs) \<and> r \<noteq> []
           \<and> hd r = (case qs of [] \<Rightarrow> p
                      | q # _ \<Rightarrow> if num_lt (key_val (fst q)) (key_val (fst p)) then q else p)"
  using assms
proof (induction qs)
  case Nil
  then show ?case by simp
next
  case (Cons q qs)
  then obtain r where r: "insort_pair p qs = Inr r" "set r = insert p (set qs)"
    by auto
  from Cons.prems have lt: "py_lt (fst q) (fst p) = Inr (num_lt (key_val (fst q)) (key_val (fst p)))"
    by (simp add: py_lt_ordered)
  show ?case
    using r lt by auto
qed

lemma sort_pairs_ok:
  "\<forall>p\<in>set ps. ordered_key (fst p) \<Longrightarrow> \<exists>r. sort_pairs ps = Inr r \<and> set r = set ps"
proof (induction ps)
  case Nil
  then show ?case by simp
next
  case (Cons p ps)
  then obtain r where r: "sort_pairs ps = Inr r" "set r = set ps" by auto
  with Cons.prems have "ordered_key (fst p)" "\<forall>q\<in>set r. ordered_key (fst q)" by auto
  from insort_pair_ok[OF this] r show ?case by auto
qed

lemma sort_pairs_head:
  assumes "\<forall>p\<in>set ps. ordered_key (fst p)" and "ps \<noteq> []"
  shows "\<exists>r pre post. sort_pairs ps = Inr r \<and> r \<noteq> [] \<and> ps = pre @ hd r # post
           \<and> (\<forall>q\<in>set pre. num_lt (key_val (fst (hd r))) (key_val (fst q)))
           \<and> (\<forall>q\<in>set post. num_le (key_val (fst (hd r))) (key_val (fst q)))"
  using assms
proof (induction ps)
  case Nil
  then show ?case by simp
next
  case (Cons p ps)
  show ?case
  proof (cases "ps = []")
    case True
    then show ?thesis
      by (intro exI[of _ "[p]"] exI[of _ "[]"]) simp
  next
    case False
    with Cons obtain r pre post where r: "sort_pairs ps = Inr r" "r \<noteq> []" "ps = pre @ hd r # post"
      and pre: "\<forall>q\<in>set pre. num_lt (key_val (fst (hd r))) (key_val (fst q))"
      and post: "\<forall>q\<in>set post. num_le (key_val (fst (hd r))) (key_val (fst q))"
      by auto
    from sort_pairs_ok[of ps] Cons.prems r have setr: "set r = set ps" by auto
    from Cons.prems setr have op: "ordered_key (fst p)" and orr: "\<forall>q\<in>set r. ordered_key (fst q)"
      by auto
    from r obtain u us where us: "r = u # us" by (cases r) auto
    from insort_pair_ok[OF op orr] us obtain r' where r': "insort_pair p r = Inr r'" "r' \<noteq> []"
      "hd r' = (if num_lt (key_val (fst u)) (key_val (fst p)) then u else p)"
      by auto
    have ou: "ordered_key (fst u)" using orr us by simp
    show ?thesis
    proof (cases "num_lt (key_val (fst u)) (key_val (fst p))")
      case True
      with r' have hd: "hd r' = u" by simp
      have "p # ps = (p # pre) @ hd r' # post" using r us hd by simp
      moreover have "\<forall>q\<in>set (p # pre). num_lt (key_val (fst (hd r'))) (key_val (fst q))"
        using pre True hd us by simp
      moreover have "\<forall>q\<in>set post. num_le (key_val (fst (hd r'))) (key_val (fst q))"
        using post hd us by simp
      ultimately show ?thesis using r r' by (intro exI[of _ r'] exI[of _ "p # pre"] exI[of _ post]) simp
    next
      case False
      with r' have hd: "hd r' = p" by simp
      have pu: "num_le (key_val (fst p)) (key_val (fst u))"
        using False not_lt_iff_le[of "key_val (fst p)" "key_val (fst u)"] ordered_key_val[OF op] ordered_key_val[OF ou]
        by simp
      have umin: "\<forall>q\<in>set ps. num_le (key_val (fst u)) (key_val (fst q))"
      proof
        fix q assume "q \<in> set ps"
        then have "q \<in> set pre \<or> q = u \<or> q \<in> set post" using r us by auto
        then show "num_le (key_val (fst u)) (key_val (fst q))"
          using pre post us num_lt_imp_le pu num_le_not_nan
          by (metis list.sel(1) num_le_trans not_lt_iff_le num_lt_irrefl)
      qed
      have "\<forall>q\<in>set ps. num_le (key_val (fst (hd r'))) (key_val (fst q))"
        using umin pu hd num_le_trans by metis
      then show ?thesis using r r' hd
        by (intro exI[of _ r'] exI[of _ "[]"] exI[of _ ps]) simp
    qed
  qed
qed

lemma eligible_dict:
  "eligible t \<Longrightarrow> \<exists>d a. t = JObj d \<and> as_num (dict_get d ''priority'' (JInt 999)) = Some a
      \<and> num_le a (FNum 1)"
  by (cases t) (auto simp: eligible_def priority_of_def split: option.splits)

lemma decorate_eligible:
  "\<forall>t\<in>set hp. eligible t \<Longrightarrow>
     \<exists>kts. decorate hp = Inr kts \<and> map snd kts = hp
       \<and> (\<forall>p\<in>set kts. ordered_key (fst p) \<and> priority_of (snd p) = Some (key_val (fst p)))"
proof (induction hp)
  case Nil
  then show ?case by simp
next
  case (Cons t hp)
  then obtain kts where k: "decorate hp = Inr kts" "map snd kts = hp"
    "\<forall>p\<in>set kts. ordered_key (fst p) \<and> priority_of (snd p) = Some (key_val (fst p))"
    by auto
  from Cons.prems obtain d a where t: "t = JObj d"
    "as_num (dict_get d ''priority'' (JInt 999)) = Some a" "num_le a (FNum 1)"
    using eligible_dict by fastforce
  then have "a \<noteq> FNaN" using num_le_not_nan by blast
  with t have "ordered_key (dict_get d ''priority'' (JInt 999))"
    "priority_of t = Some (key_val (dict_get d ''priority'' (JInt 999)))"
    by (auto simp: ordered_key_def key_val_def priority_of_def)
  with k t show ?case by auto
qed

lemma sort_by_priority_head:
  assumes el: "\<forall>t\<in>set hp. eligible t" and ne: "hp \<noteq> []"
  shows "\<exists>t rest pre post a. sort_by_priority hp = Inr (t # rest) \<and> hp = pre @ t # post
           \<and> priority_of t = Some a
           \<and> (\<forall>u\<in>set pre. \<exists>b. priority_of u = Some b \<and> num_lt a b)
           \<and> (\<forall>u\<in>set post. \<exists>b. priority_of u = Some b \<and> num_le a b)"
proof -
  from decorate_eligible[OF el] obtain kts where k: "decorate hp = Inr kts" "map snd kts = hp"
    and kp: "\<forall>p\<in>set kts. ordered_key (fst p) \<and> priority_of (snd p) = Some (key_val (fst p))"
    by blast
  from k ne have kne: "kts \<noteq> []" by auto
  from kp have ko: "\<forall>p\<in>set kts. ordered_key (fst p)" by blast
  from sort_pairs_head[OF ko kne] obtain r pre post where r: "sort_pairs kts = Inr r" "r \<noteq> []"
    "kts = pre @ hd r # post"
    and pre: "\<forall>q\<in>set pre. num_lt (key_val (fst (hd r))) (key_val (fst q))"
    and post: "\<forall>q\<in>set post. num_le (key_val (fst (hd r))) (key_val (fst q))"
    by blast
  from r obtain h tl where h: "r = h # tl" by (cases r) auto
  have s: "sort_by_priority hp = Inr (snd h # map snd tl)"
    using k r h by (simp add: sort_by_priority_def)
  have d: "hp = map snd pre @ snd h # map snd post"
    using k(2) r(3) h by auto
  have hin: "h \<in> set kts" using r(3) h by simp
  have ph: "priority_of (snd h) = Some (key_val (fst h))" using kp hin by blast
  have p1: "\<forall>u\<in>set (map snd pre). \<exists>b. priority_of u = Some b \<and> num_lt (key_val (fst h)) b"
  proof
    fix u assume "u \<in> set (map snd pre)"
    then obtain q where q: "q \<in> set pre" "u = snd q" by auto
    then have "q \<in> set kts" using r(3) by simp
    with kp q pre h show "\<exists>b. priority_of u = Some b \<and> num_lt (key_val (fst h)) b" by auto
  qed
  have p2: "\<forall>u\<in>set (map snd post). \<exists>b. priority_of u = Some b \<and> num_le (key_val (fst h)) b"
  proof
    fix u assume "u \<in> set (map snd post)"
    then obtain q where q: "q \<in> set post" "u = snd q" by auto
    then have "q \<in> set kts" using r(3) by simp
    with kp q post h show "\<exists>b. priority_of u = Some b \<and> num_le (key_val (fst h)) b" by auto
  qed
  from s d ph p1 p2 show ?thesis by blast
qed

lemma sort_by_priority_Nil: "sort_by_priority [] = Inr []"
  by (simp add: sort_by_priority_def)

lemma high_priority_tasks_head:
  assumes "high_priority_tasks tasks = Inr (t # rest)"
  shows "\<exists>ts pre post a. py_iter tasks = Inr ts \<and> filter eligible ts = pre @ t # post
           \<and> priority_of t = Some a
           \<and> (\<forall>u\<in>set pre. \<exists>b. priority_of u = Some b \<and> num_lt a b)
           \<and> (\<forall>u\<in>set post. \<exists>b. priority_of u = Some b \<and> num_le a b)"
proof -
  from assms obtain ts hp where ts: "py_iter tasks = Inr ts" and hp: "filter_high ts = Inr hp"
    and s: "sort_by_priority hp = Inr (t # rest)"
    by (auto simp: high_priority_tasks_def split: sum.splits)
  from hp have hpe: "hp = filter eligible ts" by (rule filter_high_eq)
  then have el: "\<forall>t\<in>set hp. eligible t" by simp
  from s have ne: "hp \<noteq> []" by (auto simp: sort_by_priority_Nil)
  from sort_by_priority_head[OF el ne] s ts hpe show ?thesis by auto
qed

lemma high_priority_tasks_empty:
  "high_priority_tasks tasks = Inr [] \<longleftrightarrow> (\<exists>ts. py_iter tasks = Inr ts \<and> filter_high ts = Inr [])"
proof
  assume "high_priority_tasks tasks = Inr []"
  then obtain ts hp where ts: "py_iter tasks = Inr ts" and hp: "filter_high ts = Inr hp"
    and s: "sort_by_priority hp = Inr []"
    by (auto simp: high_priority_tasks_def split: sum.splits)
  have "hp = []"
  proof (rule ccontr)
    assume ne: "hp \<noteq> []"
    from hp have "\<forall>t\<in>set hp. eligible t" using filter_high_eq by fastforce
    from sort_by_priority_head[OF this ne] s show False by auto
  qed
  with ts hp show "\<exists>ts. py_iter tasks = Inr ts \<and> filter_high ts = Inr []" by blast
next
  assume "\<exists>ts. py_iter tasks = Inr ts \<and> filter_high ts = Inr []"
  then show "high_priority_tasks tasks = Inr []"
    by (auto simp: high_priority_tasks_def sort_by_priority_Nil)
qed

lemma high_priority_tasks_selects:
  assumes "py_iter tasks = Inr ts" and "filter_high ts = Inr hp" and "hp \<noteq> []"
  shows "\<exists>t rest. high_priority_tasks tasks = Inr (t # rest)"
proof -
  from assms(2) have "\<forall>t\<in>set hp. eligible t" using filter_high_eq by fastforce
  from sort_by_priority_head[OF this assms(3)] assms(1,2) show ?thesis
    by (auto simp: high_priority_tasks_def)
qed

lemma run_shell_command_trace:
  "calls (snd (run_shell_command e cmd s)) = calls s @ [Popen cmd]
   \<and> clock (snd (run_shell_command e cmd s)) = Suc (clock s)"
  by (simp add: run_shell_command_def say_def tick_def split: popen_result.splits)

lemma call_gemini_trace:
  "calls (snd (call_gemini e prompt tools s)) = calls s @ [SubprocessRun (gemini_cmd tools) prompt]
   \<and> clock (snd (call_gemini e prompt tools s)) = Suc (clock s)"
  by (simp add: call_gemini_def Let_def say_def tick_def split: run_result.splits)

lemma get_task_details_trace:
  "calls (snd (get_task_details e tid s)) = calls s @ [Popen [''bd'', ''show'', tid, ''--json'']]
   \<and> clock (snd (get_task_details e tid s)) = Suc (clock s)"
proof -
  obtain r s1 where r: "run_shell_command e [''bd'', ''show'', tid, ''--json''] s = (r, s1)"
    by (cases "run_shell_command e [''bd'', ''show'', tid, ''--json''] s")
  with run_shell_command_trace[of e "[''bd'', ''show'', tid, ''--json'']" s]
  have s1: "calls s1 = calls s @ [Popen [''bd'', ''show'', tid, ''--json'']]" "clock s1 = Suc (clock s)"
    by simp_all
  show ?thesis
    using r s1 by (simp add: get_task_details_def say_def split: option.splits sum.splits)
qed


lemma get_ready_tasks_trace:
  "calls (snd (get_ready_tasks e s)) =
     (if which e (clock s) ''bd'' then calls s @ [Which ''bd'', Popen [''bd'', ''ready'', ''--json'']]
      else calls s @ [Which ''bd''])"
proof (cases "which e (clock s) ''bd''")
  case False
  then show ?thesis by (simp add: get_ready_tasks_def say_def tick_def)
next
  case True
  obtain r s1 where r: "run_shell_command e [''bd'', ''ready'', ''--json''] (tick (Which ''bd'') s) = (r, s1)"
    by (cases "run_shell_command e [''bd'', ''ready'', ''--json''] (tick (Which ''bd'') s)")
  with run_shell_command_trace[of e "[''bd'', ''ready'', ''--json'']" "tick (Which ''bd'') s"]
  have "calls s1 = calls s @ [Which ''bd'', Popen [''bd'', ''ready'', ''--json'']]"
    by (simp add: tick_def)
  then show ?thesis
    using True r by (simp add: get_ready_tasks_def say_def split: option.splits)
qed

lemma calls_say [simp]: "calls (say m s) = calls s"
  by (simp add: say_def)

lemma clock_say [simp]: "clock (say m s) = clock s"
  by (simp add: say_def)

lemma printed_say [simp]: "printed (say m s) = printed s @ [m]"
  by (simp add: say_def)

lemmas demo_tasks = task_bd2_def task_bd5_def task_bd7_def task_bd9_def task_bd3_def demo_ready_def


lemma eligible_priority_present:
  assumes "eligible t"
  shows "\<exists>d p a. t = JObj d \<and> map_of d ''priority'' = Some p \<and> as_num p = Some a \<and> num_le a (FNum 1)"
proof -
  from eligible_dict[OF assms] obtain d a where t: "t = JObj d"
    "as_num (dict_get d ''priority'' (JInt 999)) = Some a" "num_le a (FNum 1)" by blast
  show ?thesis
  proof (cases "map_of d ''priority''")
    case None
    with t show ?thesis by (auto simp: dict_get_def)
  next
    case (Some p)
    with t show ?thesis by (auto simp: dict_get_def)
  qed
qed

text \<open>
  Claim C1. \<^verbatim>\<open>current_task\<close> is the head of the filtered and sorted list. Whenever a
  task is selected, it is an element of the ready set, a dict whose \<^verbatim>\<open>priority\<close> field
  is present and is a number at most 1: a task with priority 2 or more, or with no
  priority field, is never the selected one, whatever else the ready set holds.
\<close>

theorem selected_priority_at_most_one:
  assumes "high_priority_tasks tasks = Inr (current_task # rest)"
  shows "\<exists>ts d p a. py_iter tasks = Inr ts \<and> current_task \<in> set ts \<and> current_task = JObj d
           \<and> map_of d ''priority'' = Some p \<and> as_num p = Some a \<and> num_le a (FNum 1)
           \<and> (\<forall>n. p = JInt n \<longrightarrow> n \<le> 1)"
proof -
  from high_priority_tasks_head[OF assms] obtain ts pre post where ts: "py_iter tasks = Inr ts"
    and f: "filter eligible ts = pre @ current_task # post" by blast
  then have "current_task \<in> set (filter eligible ts)" by simp
  then have m: "current_task \<in> set ts" and el: "eligible current_task" by auto
  from eligible_priority_present[OF el] obtain d p a where d: "current_task = JObj d"
    "map_of d ''priority'' = Some p" "as_num p = Some a" "num_le a (FNum 1)" by blast
  have "\<forall>n. p = JInt n \<longrightarrow> n \<le> 1"
    using d(3,4) by auto
  with ts m d show ?thesis by blast
qed

theorem selected_priority_at_most_one_witness:
  "high_priority_tasks demo_ready = Inr (task_bd5 # [task_bd7, task_bd2])
   \<and> (\<exists>ts d p a. py_iter demo_ready = Inr ts \<and> task_bd5 \<in> set ts \<and> task_bd5 = JObj d
           \<and> map_of d ''priority'' = Some p \<and> as_num p = Some a \<and> num_le a (FNum 1)
           \<and> (\<forall>n. p = JInt n \<longrightarrow> n \<le> 1))"
proof -
  have h: "high_priority_tasks demo_ready = Inr (task_bd5 # [task_bd7, task_bd2])"
    by (simp add: demo_tasks high_priority_tasks_def sort_by_priority_def py_le_int_def
        py_lt_def dict_get_def)
  from selected_priority_at_most_one[OF h] h show ?thesis by simp
qed



lemmas demo_texts = txt_ready_low_def txt_ready_noid_def txt_ready_missing_id_def txt_ready_bd5_def
  txt_show_bd5_open_def txt_show_bd5_closed_def txt_show_bd2_def txt_empty_list_def
  txt_error_object_def

lemma py_strip_no_space:
  assumes "s \<noteq> []" and "\<not> py_isspace (hd s)" and "\<not> py_isspace (last s)"
  shows "py_strip s = s"
proof -
  have "dropWhile py_isspace s = s"
    using assms by (simp add: dropWhile_eq_self_iff)
  moreover have "dropWhile py_isspace (rev s) = rev s"
    using assms by (simp add: dropWhile_eq_self_iff hd_rev)
  ultimately show ?thesis by (simp add: py_strip_def)
qed

lemma py_strip_Nil: "py_strip [] = []"
  by (simp add: py_strip_def)

lemma get_ready_tasks_Ret_which:
  "get_ready_tasks e s = (Ret tasks, s1) \<Longrightarrow> which e (clock s) ''bd''"
  by (auto simp: get_ready_tasks_def split: if_splits)

lemma get_ready_tasks_Ret_calls:
  assumes "get_ready_tasks e s = (Ret tasks, s1)"
  shows "calls s1 = calls s @ [Which ''bd'', Popen [''bd'', ''ready'', ''--json'']]"
  using get_ready_tasks_trace[of e s] get_ready_tasks_Ret_which[OF assms] assms by simp

lemma demo_strip:
  "py_strip txt_ready_low = txt_ready_low"
  "py_strip txt_ready_noid = txt_ready_noid"
  "py_strip txt_ready_missing_id = txt_ready_missing_id"
  "py_strip txt_ready_bd5 = txt_ready_bd5"
  "py_strip txt_show_bd5_open = txt_show_bd5_open"
  "py_strip txt_show_bd5_closed = txt_show_bd5_closed"
  "py_strip txt_show_bd2 = txt_show_bd2"
  "py_strip txt_empty_list = txt_empty_list"
  "py_strip txt_error_object = txt_error_object"
  by (rule py_strip_no_space; simp add: demo_texts py_isspace_def)+


text \<open>
  Claim C3. Where the ready query returns and the filter leaves no eligible task, the
  pass prints the no-more-work message and breaks out of the loop, \<^verbatim>\<open>main\<close> returns (for
  any fuel of at least one pass), the exit status is 0, and the pass has made two
  interactions only, the lookup of \<^verbatim>\<open>bd\<close> and the ready query: the agent was not run.
\<close>

theorem no_eligible_task_ends_loop:
  assumes "get_ready_tasks e s = (Ret tasks, s1)"
    and "py_iter tasks = Inr ts"
    and "filter_high ts = Inr []"
  shows "loop_body e s = (Ret Break, say NoMoreWork s1)
       \<and> main_loop e (Suc n) s = Some (Ret (), say NoMoreWork s1)
       \<and> exit_status (Ret ()) = 0
       \<and> printed (say NoMoreWork s1) = printed s1 @ [NoMoreWork]
       \<and> calls (say NoMoreWork s1) = calls s @ [Which ''bd'', Popen [''bd'', ''ready'', ''--json'']]
       \<and> filter is_agent_call (calls (say NoMoreWork s1)) = filter is_agent_call (calls s)"
proof -
  have hp: "high_priority_tasks tasks = Inr []"
    using assms(2,3) high_priority_tasks_empty by blast
  have lb: "loop_body e s = (Ret Break, say NoMoreWork s1)"
    using assms(1) hp by (simp add: loop_body_def)
  have ml: "main_loop e (Suc n) s = Some (Ret (), say NoMoreWork s1)"
    using lb by simp
  show ?thesis
    using lb ml get_ready_tasks_Ret_calls[OF assms(1)] by (simp add: is_agent_call_def)
qed

theorem no_eligible_task_ends_loop_witness:
  "get_ready_tasks (demo_env True (PopenExits txt_ready_low [] 0) (\<lambda>t. PopenRaises []) (RunExits 0))
       init_state
     = (Ret (JArr [JObj [(''id'', JStr ''bd-9''), (''priority'', JInt 2)]]),
        \<lparr>clock = 2, printed = [], calls = [Which ''bd'', Popen [''bd'', ''ready'', ''--json'']]\<rparr>)
   \<and> main_loop (demo_env True (PopenExits txt_ready_low [] 0) (\<lambda>t. PopenRaises []) (RunExits 0))
       (Suc 0) init_state
     = Some (Ret (),
        \<lparr>clock = 2, printed = [NoMoreWork],
         calls = [Which ''bd'', Popen [''bd'', ''ready'', ''--json'']]\<rparr>)"
proof -
  let ?e = "demo_env True (PopenExits txt_ready_low [] 0) (\<lambda>t. PopenRaises []) (RunExits 0)"
  let ?t = "JObj [(''id'', JStr ''bd-9''), (''priority'', JInt 2)]"
  let ?s1 = "\<lparr>clock = 2, printed = [], calls = [Which ''bd'', Popen [''bd'', ''ready'', ''--json'']]\<rparr>"
  have l: "demo_loads txt_ready_low = Some (JArr [?t])"
    by (simp add: demo_loads_def)
  have g: "get_ready_tasks ?e init_state = (Ret (JArr [?t]), ?s1)"
    by (simp add: get_ready_tasks_def run_shell_command_def demo_env_def init_state_def tick_def
        demo_strip py_strip_Nil l)
  have i: "py_iter (JArr [?t]) = Inr [?t]" by simp
  have f: "filter_high [?t] = Inr []"
    by (simp add: py_le_int_def dict_get_def)
  from no_eligible_task_ends_loop[OF g i f, of 0] g show ?thesis
    by (simp add: say_def)
qed

text \<open>
  Claim C10. The test of line 130 is a truth test: where the chosen task has the empty
  string as its id, or no id at all (\<^verbatim>\<open>.get('id')\<close> is \<^verbatim>\<open>None\<close>), the pass prints the
  skip message and continues with the next pass, having made the lookup of \<^verbatim>\<open>bd\<close> and
  the ready query only: no detail was fetched and the agent was not run.
\<close>

theorem empty_id_is_skipped:
  assumes "get_ready_tasks e s = (Ret tasks, s1)"
    and "high_priority_tasks tasks = Inr (current_task # rest)"
    and "py_get current_task ''id'' JNull = Inr task_id"
    and "task_id = JStr [] \<or> task_id = JNull"
  shows "loop_body e s = (Ret Continue, say TaskWithoutId s1)
       \<and> calls (say TaskWithoutId s1) = calls s @ [Which ''bd'', Popen [''bd'', ''ready'', ''--json'']]"
proof -
  have "\<not> truthy task_id" using assms(4) by auto
  then have "loop_body e s = (Ret Continue, say TaskWithoutId s1)"
    using assms(1,2,3) by (simp add: loop_body_def)
  then show ?thesis
    using get_ready_tasks_Ret_calls[OF assms(1)] by simp
qed

theorem empty_id_is_skipped_witness:
  "loop_body (demo_env True (PopenExits txt_ready_noid [] 0) (\<lambda>t. PopenRaises []) (RunExits 0))
       init_state
     = (Ret Continue,
        \<lparr>clock = 2, printed = [TaskWithoutId],
         calls = [Which ''bd'', Popen [''bd'', ''ready'', ''--json'']]\<rparr>)
   \<and> loop_body (demo_env True (PopenExits txt_ready_missing_id [] 0) (\<lambda>t. PopenRaises [])
         (RunExits 0)) init_state
     = (Ret Continue,
        \<lparr>clock = 2, printed = [TaskWithoutId],
         calls = [Which ''bd'', Popen [''bd'', ''ready'', ''--json'']]\<rparr>)"
proof -
  let ?e1 = "demo_env True (PopenExits txt_ready_noid [] 0) (\<lambda>t. PopenRaises []) (RunExits 0)"
  let ?e2 = "demo_env True (PopenExits txt_ready_missing_id [] 0) (\<lambda>t. PopenRaises []) (RunExits 0)"
  let ?t1 = "JObj [(''id'', JStr ''''), (''priority'', JInt 0)]"
  let ?t2 = "JObj [(''priority'', JInt 0)]"
  let ?s1 = "\<lparr>clock = 2, printed = [], calls = [Which ''bd'', Popen [''bd'', ''ready'', ''--json'']]\<rparr>"
  have l1: "demo_loads txt_ready_noid = Some (JArr [?t1])"
    by (simp add: demo_loads_def demo_texts)
  have l2: "demo_loads txt_ready_missing_id = Some (JArr [?t2])"
    by (simp add: demo_loads_def demo_texts)
  have g1: "get_ready_tasks ?e1 init_state = (Ret (JArr [?t1]), ?s1)"
    by (simp add: get_ready_tasks_def run_shell_command_def demo_env_def init_state_def tick_def
        demo_strip py_strip_Nil l1)
  have g2: "get_ready_tasks ?e2 init_state = (Ret (JArr [?t2]), ?s1)"
    by (simp add: get_ready_tasks_def run_shell_command_def demo_env_def init_state_def tick_def
        demo_strip py_strip_Nil l2)
  have h1: "high_priority_tasks (JArr [?t1]) = Inr (?t1 # [])"
    by (simp add: high_priority_tasks_def sort_by_priority_def py_le_int_def dict_get_def)
  have h2: "high_priority_tasks (JArr [?t2]) = Inr (?t2 # [])"
    by (simp add: high_priority_tasks_def sort_by_priority_def py_le_int_def dict_get_def)
  have i1: "py_get ?t1 ''id'' JNull = Inr (JStr [])" by (simp add: dict_get_def)
  have i2: "py_get ?t2 ''id'' JNull = Inr JNull" by (simp add: dict_get_def)
  from empty_id_is_skipped[OF g1 h1 i1] empty_id_is_skipped[OF g2 h2 i2] show ?thesis
    by (simp add: say_def)
qed

lemma process_task_dict:
  assumes "get_task_details e tid s = (Ret (JObj d), s1)" and "d \<noteq> []"
  shows "process_task e tid s =
     (if dict_get d ''issue_type'' JNull = JStr ''epic''
         \<or> dict_get d ''issue_type'' JNull = JStr ''feature''
      then (Ret Continue,
            snd (call_gemini e (decompose_prompt tid) (Some [''all''])
                   (say (Decomposing (dict_get d ''issue_type'' JNull)) (announce tid d s1))))
      else verify_closed e tid
             (snd (call_gemini e (exec_prompt tid) (Some [''all'']) (announce tid d s1))))"
  using assms
  by (simp add: process_task_def announce_def Let_def split: prod.splits)

lemma calls_announce [simp]: "calls (announce tid d s) = calls s"
  by (simp add: announce_def)

lemma verify_closed_trace:
  "calls (snd (verify_closed e tid s)) = calls s @ [Popen [''bd'', ''show'', tid, ''--json'']]"
proof -
  obtain r s1 where r: "get_task_details e tid s = (r, s1)"
    by (cases "get_task_details e tid s")
  with get_task_details_trace[of e tid s]
  have "calls s1 = calls s @ [Popen [''bd'', ''show'', tid, ''--json'']]" by simp
  then show ?thesis
    using r by (cases r) (auto simp: verify_closed_def split: sum.splits)
qed

lemma get_task_details_Ret_calls:
  "get_task_details e tid s = (r, s1) \<Longrightarrow> calls s1 = calls s @ [Popen [''bd'', ''show'', tid, ''--json'']]"
  using get_task_details_trace[of e tid s] by simp

lemma call_gemini_calls:
  "call_gemini e prompt tools s = (ok, s1) \<Longrightarrow>
     calls s1 = calls s @ [SubprocessRun (gemini_cmd tools) prompt]"
  using call_gemini_trace[of e prompt tools s] by simp

lemma demo_loads_show:
  "demo_loads txt_show_bd2
     = Some (JArr [JObj [(''id'', JStr ''bd-2''), (''issue_type'', JStr ''epic''),
                         (''status'', JStr ''open'')]])"
  "demo_loads txt_show_bd5_open
     = Some (JArr [JObj [(''id'', JStr ''bd-5''), (''issue_type'', JStr ''task''),
                         (''status'', JStr ''open'')]])"
  "demo_loads txt_show_bd5_closed
     = Some (JArr [JObj [(''id'', JStr ''bd-5''), (''issue_type'', JStr ''task''),
                         (''status'', JStr ''closed'')]])"
  "demo_loads txt_empty_list = Some (JArr [])"
  "demo_loads txt_error_object = Some (JObj [(''error'', JStr ''not found'')])"
  by (simp_all add: demo_loads_def demo_texts)

lemmas demo_run = get_task_details_def run_shell_command_def call_gemini_def demo_env_def
  init_state_def tick_def say_def announce_def Let_def dict_get_def demo_strip py_strip_Nil
  demo_loads_show






text \<open>
  Claim C4. Where the details of the task are a non-empty object of another type, the
  pass sends the exec prompt to the agent and then queries the details again, whatever
  the agent reported (\<open>ok\<close> is arbitrary). Where that second query returns nothing (or
  any false value) the program exits with status 1 after the could-not-verify message;
  where it returns an object whose \<^verbatim>\<open>status\<close> is not \<^verbatim>\<open>closed\<close> the program exits with
  status 1 after a message that carries the id; where the status is \<^verbatim>\<open>closed\<close> the pass
  prints the success message and goes on to the next selection, and it goes on only then.
\<close>

theorem execute_branch_verifies:
  assumes "get_task_details e tid s = (Ret (JObj d), s1)"
    and "d \<noteq> []"
    and "dict_get d ''issue_type'' JNull \<noteq> JStr ''epic''"
    and "dict_get d ''issue_type'' JNull \<noteq> JStr ''feature''"
    and "call_gemini e (exec_prompt tid) (Some [''all'']) (announce tid d s1) = (ok, s2)"
    and "get_task_details e tid s2 = (Ret final, s3)"
  shows "calls s3 = calls s @ [Popen [''bd'', ''show'', tid, ''--json''],
                               SubprocessRun (gemini_cmd (Some [''all''])) (exec_prompt tid),
                               Popen [''bd'', ''show'', tid, ''--json'']]
       \<and> (\<not> truthy final \<longrightarrow>
            process_task e tid s = (SysExit 1, say (CouldNotVerify tid) s3))
       \<and> (\<forall>f. final = JObj f \<and> f \<noteq> [] \<and> dict_get f ''status'' JNull \<noteq> JStr ''closed'' \<longrightarrow>
            process_task e tid s = (SysExit 1, say (NotClosed tid) s3))
       \<and> (\<forall>f. final = JObj f \<and> f \<noteq> [] \<and> dict_get f ''status'' JNull = JStr ''closed'' \<longrightarrow>
            process_task e tid s = (Ret Continue, say (SuccessfullyProcessed tid) s3))
       \<and> (fst (process_task e tid s) = Ret Continue \<longrightarrow>
            (\<exists>f. final = JObj f \<and> dict_get f ''status'' JNull = JStr ''closed''))
       \<and> exit_status (SysExit 1) \<noteq> 0"
proof -
  have p: "process_task e tid s = verify_closed e tid s2"
    using process_task_dict[OF assms(1,2)] assms(3,4,5) by simp
  have c: "calls s3 = calls s @ [Popen [''bd'', ''show'', tid, ''--json''],
                               SubprocessRun (gemini_cmd (Some [''all''])) (exec_prompt tid),
                               Popen [''bd'', ''show'', tid, ''--json'']]"
    using get_task_details_Ret_calls[OF assms(6)] call_gemini_calls[OF assms(5)]
      get_task_details_Ret_calls[OF assms(1)] by simp
  have v1: "\<not> truthy final \<longrightarrow> verify_closed e tid s2 = (SysExit 1, say (CouldNotVerify tid) s3)"
    using assms(6) by (simp add: verify_closed_def)
  have v2: "\<forall>f. final = JObj f \<and> f \<noteq> [] \<and> dict_get f ''status'' JNull \<noteq> JStr ''closed'' \<longrightarrow>
            verify_closed e tid s2 = (SysExit 1, say (NotClosed tid) s3)"
    using assms(6) by (simp add: verify_closed_def)
  have v3: "\<forall>f. final = JObj f \<and> f \<noteq> [] \<and> dict_get f ''status'' JNull = JStr ''closed'' \<longrightarrow>
            verify_closed e tid s2 = (Ret Continue, say (SuccessfullyProcessed tid) s3)"
    using assms(6) by (simp add: verify_closed_def)
  have v4: "fst (verify_closed e tid s2) = Ret Continue \<longrightarrow>
            (\<exists>f. final = JObj f \<and> dict_get f ''status'' JNull = JStr ''closed'')"
    using assms(6) by (cases final) (auto simp: verify_closed_def split: if_splits)
  show ?thesis
    using p c v1 v2 v3 v4 by simp
qed


theorem execute_branch_verifies_witness:
  "process_task (demo_env True (PopenRaises [])
        (\<lambda>t. if t = 0 then PopenExits txt_show_bd5_open [] 0 else PopenExits txt_empty_list [] 0)
        (RunExits 0)) ''bd-5'' init_state
     = (SysExit 1,
        \<lparr>clock = 3,
         printed = [Rule80, Processing ''bd-5'' (JStr ''task'') JNull, Rule80,
                    CallingGemini (Some [''all'']), CouldNotVerify ''bd-5''],
         calls = [Popen [''bd'', ''show'', ''bd-5'', ''--json''],
                  SubprocessRun (gemini_cmd (Some [''all''])) (exec_prompt ''bd-5''),
                  Popen [''bd'', ''show'', ''bd-5'', ''--json'']]\<rparr>)
   \<and> process_task (demo_env True (PopenRaises [])
        (\<lambda>t. PopenExits txt_show_bd5_open [] 0) (RunExits 0)) ''bd-5'' init_state
     = (SysExit 1,
        \<lparr>clock = 3,
         printed = [Rule80, Processing ''bd-5'' (JStr ''task'') JNull, Rule80,
                    CallingGemini (Some [''all'']), NotClosed ''bd-5''],
         calls = [Popen [''bd'', ''show'', ''bd-5'', ''--json''],
                  SubprocessRun (gemini_cmd (Some [''all''])) (exec_prompt ''bd-5''),
                  Popen [''bd'', ''show'', ''bd-5'', ''--json'']]\<rparr>)
   \<and> process_task (demo_env True (PopenRaises [])
        (\<lambda>t. if t = 0 then PopenExits txt_show_bd5_open [] 0 else PopenExits txt_show_bd5_closed [] 0)
        (RunExits 0)) ''bd-5'' init_state
     = (Ret Continue,
        \<lparr>clock = 3,
         printed = [Rule80, Processing ''bd-5'' (JStr ''task'') JNull, Rule80,
                    CallingGemini (Some [''all'']), SuccessfullyProcessed ''bd-5''],
         calls = [Popen [''bd'', ''show'', ''bd-5'', ''--json''],
                  SubprocessRun (gemini_cmd (Some [''all''])) (exec_prompt ''bd-5''),
                  Popen [''bd'', ''show'', ''bd-5'', ''--json'']]\<rparr>)"
proof -
  let ?eA = "demo_env True (PopenRaises [])
        (\<lambda>t. if t = 0 then PopenExits txt_show_bd5_open [] 0 else PopenExits txt_empty_list [] 0)
        (RunExits 0)"
  let ?eB = "demo_env True (PopenRaises [])
        (\<lambda>t. PopenExits txt_show_bd5_open [] 0) (RunExits 0)"
  let ?eC = "demo_env True (PopenRaises [])
        (\<lambda>t. if t = 0 then PopenExits txt_show_bd5_open [] 0 else PopenExits txt_show_bd5_closed [] 0)
        (RunExits 0)"
  let ?d = "[(''id'', JStr ''bd-5''), (''issue_type'', JStr ''task''), (''status'', JStr ''open'')]"
  let ?c = "[(''id'', JStr ''bd-5''), (''issue_type'', JStr ''task''), (''status'', JStr ''closed'')]"
  let ?s1 = "\<lparr>clock = 1, printed = [], calls = [Popen [''bd'', ''show'', ''bd-5'', ''--json'']]\<rparr>"
  let ?s2 = "\<lparr>clock = 2,
         printed = [Rule80, Processing ''bd-5'' (JStr ''task'') JNull, Rule80,
                    CallingGemini (Some [''all''])],
         calls = [Popen [''bd'', ''show'', ''bd-5'', ''--json''],
                  SubprocessRun (gemini_cmd (Some [''all''])) (exec_prompt ''bd-5'')]\<rparr>"
  let ?s3 = "\<lparr>clock = 3,
         printed = [Rule80, Processing ''bd-5'' (JStr ''task'') JNull, Rule80,
                    CallingGemini (Some [''all''])],
         calls = [Popen [''bd'', ''show'', ''bd-5'', ''--json''],
                  SubprocessRun (gemini_cmd (Some [''all''])) (exec_prompt ''bd-5''),
                  Popen [''bd'', ''show'', ''bd-5'', ''--json'']]\<rparr>"
  have n: "?d \<noteq> []" by simp
  have t1: "dict_get ?d ''issue_type'' JNull \<noteq> JStr ''epic''" by (simp add: dict_get_def)
  have t2: "dict_get ?d ''issue_type'' JNull \<noteq> JStr ''feature''" by (simp add: dict_get_def)
  have gA: "get_task_details ?eA ''bd-5'' init_state = (Ret (JObj ?d), ?s1)"
    by (simp add: demo_run)
  have gB: "get_task_details ?eB ''bd-5'' init_state = (Ret (JObj ?d), ?s1)"
    by (simp add: demo_run)
  have gC: "get_task_details ?eC ''bd-5'' init_state = (Ret (JObj ?d), ?s1)"
    by (simp add: demo_run)
  have aA: "call_gemini ?eA (exec_prompt ''bd-5'') (Some [''all'']) (announce ''bd-5'' ?d ?s1)
              = (True, ?s2)"
    by (simp add: demo_run)
  have aB: "call_gemini ?eB (exec_prompt ''bd-5'') (Some [''all'']) (announce ''bd-5'' ?d ?s1)
              = (True, ?s2)"
    by (simp add: demo_run)
  have aC: "call_gemini ?eC (exec_prompt ''bd-5'') (Some [''all'']) (announce ''bd-5'' ?d ?s1)
              = (True, ?s2)"
    by (simp add: demo_run)
  have fA: "get_task_details ?eA ''bd-5'' ?s2 = (Ret JNull, ?s3)"
    by (simp add: demo_run)
  have fB: "get_task_details ?eB ''bd-5'' ?s2 = (Ret (JObj ?d), ?s3)"
    by (simp add: demo_run)
  have fC: "get_task_details ?eC ''bd-5'' ?s2 = (Ret (JObj ?c), ?s3)"
    by (simp add: demo_run)
  have rA: "process_task ?eA ''bd-5'' init_state = (SysExit 1, say (CouldNotVerify ''bd-5'') ?s3)"
    using execute_branch_verifies[OF gA n t1 t2 aA fA] by simp
  have rB: "process_task ?eB ''bd-5'' init_state = (SysExit 1, say (NotClosed ''bd-5'') ?s3)"
    using execute_branch_verifies[OF gB n t1 t2 aB fB] by (simp add: dict_get_def)
  have rC: "process_task ?eC ''bd-5'' init_state
              = (Ret Continue, say (SuccessfullyProcessed ''bd-5'') ?s3)"
    using execute_branch_verifies[OF gC n t1 t2 aC fC] by (simp add: dict_get_def)
  show ?thesis
    unfolding rA rB rC by (simp add: say_def)
qed













text \<open>
  Claim C6, as the code has it. With \<^verbatim>\<open>bd\<close> found on the path: where the tracker exits
  non-zero, \<^verbatim>\<open>get_ready_tasks\<close> prints the fetch diagnostic and returns the empty list;
  where its output does not decode, it prints the parse diagnostic and returns the
  empty list; but where the tracker does not start, \<^verbatim>\<open>run_shell_command\<close> has reported
  the failure and returned \<^verbatim>\<open>None\<close>, and the subscript \<^verbatim>\<open>result["stderr"]\<close> of line 86
  raises \<^verbatim>\<open>TypeError\<close>: nothing is returned, and no fetch diagnostic is printed.
\<close>

theorem get_ready_tasks_on_failure:
  assumes "which e (clock s) ''bd''"
  shows "(popen e (Suc (clock s)) [''bd'', ''ready'', ''--json''] = PopenRaises err \<longrightarrow>
            get_ready_tasks e s
              = (Raise TypeError,
                 say (ErrorRunningCommand [''bd'', ''ready'', ''--json''] err)
                   (tick (Popen [''bd'', ''ready'', ''--json'']) (tick (Which ''bd'') s))))
       \<and> (popen e (Suc (clock s)) [''bd'', ''ready'', ''--json''] = PopenExits out errt rc
            \<and> rc \<noteq> 0 \<longrightarrow>
            get_ready_tasks e s
              = (Ret (JArr []),
                 say (ErrorFetchingTasks (py_strip errt))
                   (tick (Popen [''bd'', ''ready'', ''--json'']) (tick (Which ''bd'') s))))
       \<and> (popen e (Suc (clock s)) [''bd'', ''ready'', ''--json''] = PopenExits out errt 0
            \<and> json_loads e (py_strip out) = None \<longrightarrow>
            get_ready_tasks e s
              = (Ret (JArr []),
                 say (ErrorParsingJson (py_strip out))
                   (tick (Popen [''bd'', ''ready'', ''--json'']) (tick (Which ''bd'') s))))"
  using assms
  by (simp add: get_ready_tasks_def run_shell_command_def tick_def)

theorem get_ready_tasks_on_failure_witness:
  "get_ready_tasks
       (demo_env True (PopenRaises ''Permission denied'') (\<lambda>t. PopenRaises []) (RunExits 0))
       init_state
     = (Raise TypeError,
        \<lparr>clock = 2,
         printed = [ErrorRunningCommand [''bd'', ''ready'', ''--json''] ''Permission denied''],
         calls = [Which ''bd'', Popen [''bd'', ''ready'', ''--json'']]\<rparr>)
   \<and> get_ready_tasks
       (demo_env True (PopenExits [] ''no database'' 1) (\<lambda>t. PopenRaises []) (RunExits 0))
       init_state
     = (Ret (JArr []),
        \<lparr>clock = 2,
         printed = [ErrorFetchingTasks ''no database''],
         calls = [Which ''bd'', Popen [''bd'', ''ready'', ''--json'']]\<rparr>)
   \<and> get_ready_tasks
       (demo_env True (PopenExits ''oops'' [] 0) (\<lambda>t. PopenRaises []) (RunExits 0))
       init_state
     = (Ret (JArr []),
        \<lparr>clock = 2,
         printed = [ErrorParsingJson ''oops''],
         calls = [Which ''bd'', Popen [''bd'', ''ready'', ''--json'']]\<rparr>)"
proof -
  let ?e1 = "demo_env True (PopenRaises ''Permission denied'') (\<lambda>t. PopenRaises []) (RunExits 0)"
  let ?e2 = "demo_env True (PopenExits [] ''no database'' 1) (\<lambda>t. PopenRaises []) (RunExits 0)"
  let ?e3 = "demo_env True (PopenExits ''oops'' [] 0) (\<lambda>t. PopenRaises []) (RunExits 0)"
  have w1: "which ?e1 (clock init_state) ''bd''" by (simp add: demo_env_def)
  have w2: "which ?e2 (clock init_state) ''bd''" by (simp add: demo_env_def)
  have w3: "which ?e3 (clock init_state) ''bd''" by (simp add: demo_env_def)
  have s1: "py_strip ''no database'' = ''no database''"
    by (rule py_strip_no_space) (simp_all add: py_isspace_def)
  have s2: "py_strip ''oops'' = ''oops''"
    by (rule py_strip_no_space) (simp_all add: py_isspace_def)
  have l: "demo_loads ''oops'' = None"
    by (simp add: demo_loads_def demo_texts)
  have r1: "get_ready_tasks ?e1 init_state
     = (Raise TypeError,
        say (ErrorRunningCommand [''bd'', ''ready'', ''--json''] ''Permission denied'')
          (tick (Popen [''bd'', ''ready'', ''--json'']) (tick (Which ''bd'') init_state)))"
    using get_ready_tasks_on_failure[OF w1, of "''Permission denied''" "[]" "[]" 0]
    by (simp add: demo_env_def)
  have r2: "get_ready_tasks ?e2 init_state
     = (Ret (JArr []),
        say (ErrorFetchingTasks ''no database'')
          (tick (Popen [''bd'', ''ready'', ''--json'']) (tick (Which ''bd'') init_state)))"
    using get_ready_tasks_on_failure[OF w2, of "[]" "[]" "''no database''" 1]
    by (simp add: demo_env_def s1)
  have r3: "get_ready_tasks ?e3 init_state
     = (Ret (JArr []),
        say (ErrorParsingJson ''oops'')
          (tick (Popen [''bd'', ''ready'', ''--json'']) (tick (Which ''bd'') init_state)))"
    using get_ready_tasks_on_failure[OF w3, of "[]" "''oops''" "[]" 0]
    by (simp add: demo_env_def s2 l)
  show ?thesis
    unfolding r1 r2 r3 by (simp add: say_def tick_def init_state_def)
qed

text \<open>
  Claim C7, as the code has it. \<^verbatim>\<open>get_task_details\<close> returns \<^verbatim>\<open>None\<close> where the tracker exits
  non-zero, where its output does not decode, and where the decoded value is false (the
  empty list among them); it returns the first element of a decoded non-empty list. But
  where the tracker does not start, the subscript \<^verbatim>\<open>result['stderr']\<close> of line 99 raises
  \<^verbatim>\<open>TypeError\<close>, as in \<^verbatim>\<open>get_ready_tasks\<close>; and where the output decodes to a non-empty
  object, \<^verbatim>\<open>data[0]\<close> raises \<^verbatim>\<open>KeyError\<close>, which the handler of line 106 does not catch.
\<close>

theorem get_task_details_cases:
  shows "(popen e (clock s) [''bd'', ''show'', tid, ''--json''] = PopenRaises err \<longrightarrow>
            get_task_details e tid s
              = (Raise TypeError,
                 say (ErrorRunningCommand [''bd'', ''show'', tid, ''--json''] err)
                   (tick (Popen [''bd'', ''show'', tid, ''--json'']) s)))
       \<and> (popen e (clock s) [''bd'', ''show'', tid, ''--json''] = PopenExits out errt rc
            \<and> rc \<noteq> 0 \<longrightarrow>
            get_task_details e tid s
              = (Ret JNull,
                 say (ErrorFetchingDetails tid (py_strip errt))
                   (tick (Popen [''bd'', ''show'', tid, ''--json'']) s)))
       \<and> (popen e (clock s) [''bd'', ''show'', tid, ''--json''] = PopenExits out errt 0
            \<and> json_loads e (py_strip out) = None \<longrightarrow>
            get_task_details e tid s
              = (Ret JNull, tick (Popen [''bd'', ''show'', tid, ''--json'']) s))
       \<and> (popen e (clock s) [''bd'', ''show'', tid, ''--json''] = PopenExits out errt 0
            \<and> json_loads e (py_strip out) = Some data \<and> \<not> truthy data \<longrightarrow>
            get_task_details e tid s
              = (Ret JNull, tick (Popen [''bd'', ''show'', tid, ''--json'']) s))
       \<and> (popen e (clock s) [''bd'', ''show'', tid, ''--json''] = PopenExits out errt 0
            \<and> json_loads e (py_strip out) = Some (JArr (x # xs)) \<longrightarrow>
            get_task_details e tid s
              = (Ret x, tick (Popen [''bd'', ''show'', tid, ''--json'']) s))
       \<and> (popen e (clock s) [''bd'', ''show'', tid, ''--json''] = PopenExits out errt 0
            \<and> json_loads e (py_strip out) = Some (JObj (kv # d)) \<longrightarrow>
            get_task_details e tid s
              = (Raise KeyError, tick (Popen [''bd'', ''show'', tid, ''--json'']) s))"
  by (simp add: get_task_details_def run_shell_command_def)

theorem get_task_details_cases_witness:
  "get_task_details
       (demo_env True (PopenRaises []) (\<lambda>t. PopenRaises ''Permission denied'') (RunExits 0))
       ''bd-5'' init_state
     = (Raise TypeError,
        \<lparr>clock = 1,
         printed = [ErrorRunningCommand [''bd'', ''show'', ''bd-5'', ''--json''] ''Permission denied''],
         calls = [Popen [''bd'', ''show'', ''bd-5'', ''--json'']]\<rparr>)
   \<and> get_task_details
       (demo_env True (PopenRaises []) (\<lambda>t. PopenExits [] ''no issue'' 1) (RunExits 0))
       ''bd-5'' init_state
     = (Ret JNull,
        \<lparr>clock = 1,
         printed = [ErrorFetchingDetails ''bd-5'' ''no issue''],
         calls = [Popen [''bd'', ''show'', ''bd-5'', ''--json'']]\<rparr>)
   \<and> get_task_details
       (demo_env True (PopenRaises []) (\<lambda>t. PopenExits ''oops'' [] 0) (RunExits 0))
       ''bd-5'' init_state
     = (Ret JNull,
        \<lparr>clock = 1, printed = [], calls = [Popen [''bd'', ''show'', ''bd-5'', ''--json'']]\<rparr>)
   \<and> get_task_details
       (demo_env True (PopenRaises []) (\<lambda>t. PopenExits txt_empty_list [] 0) (RunExits 0))
       ''bd-5'' init_state
     = (Ret JNull,
        \<lparr>clock = 1, printed = [], calls = [Popen [''bd'', ''show'', ''bd-5'', ''--json'']]\<rparr>)
   \<and> get_task_details
       (demo_env True (PopenRaises []) (\<lambda>t. PopenExits txt_show_bd5_open [] 0) (RunExits 0))
       ''bd-5'' init_state
     = (Ret (JObj [(''id'', JStr ''bd-5''), (''issue_type'', JStr ''task''),
                   (''status'', JStr ''open'')]),
        \<lparr>clock = 1, printed = [], calls = [Popen [''bd'', ''show'', ''bd-5'', ''--json'']]\<rparr>)
   \<and> get_task_details
       (demo_env True (PopenRaises []) (\<lambda>t. PopenExits txt_error_object [] 0) (RunExits 0))
       ''bd-5'' init_state
     = (Raise KeyError,
        \<lparr>clock = 1, printed = [], calls = [Popen [''bd'', ''show'', ''bd-5'', ''--json'']]\<rparr>)"
proof -
  let ?cmd = "[''bd'', ''show'', ''bd-5'', ''--json'']"
  let ?e1 = "demo_env True (PopenRaises []) (\<lambda>t. PopenRaises ''Permission denied'') (RunExits 0)"
  let ?e2 = "demo_env True (PopenRaises []) (\<lambda>t. PopenExits [] ''no issue'' 1) (RunExits 0)"
  let ?e3 = "demo_env True (PopenRaises []) (\<lambda>t. PopenExits ''oops'' [] 0) (RunExits 0)"
  let ?e4 = "demo_env True (PopenRaises []) (\<lambda>t. PopenExits txt_empty_list [] 0) (RunExits 0)"
  let ?e5 = "demo_env True (PopenRaises []) (\<lambda>t. PopenExits txt_show_bd5_open [] 0) (RunExits 0)"
  let ?e6 = "demo_env True (PopenRaises []) (\<lambda>t. PopenExits txt_error_object [] 0) (RunExits 0)"
  let ?s1 = "tick (Popen ?cmd) init_state"
  have s1: "py_strip ''no issue'' = ''no issue''"
    by (rule py_strip_no_space) (simp_all add: py_isspace_def)
  have s2: "py_strip ''oops'' = ''oops''"
    by (rule py_strip_no_space) (simp_all add: py_isspace_def)
  have l: "demo_loads ''oops'' = None"
    by (simp add: demo_loads_def demo_texts)
  have r1: "get_task_details ?e1 ''bd-5'' init_state
              = (Raise TypeError, say (ErrorRunningCommand ?cmd ''Permission denied'') ?s1)"
    using get_task_details_cases[of ?e1 init_state "''bd-5''" "''Permission denied''"
            "[]" "[]" 0 JNull JNull "[]" "([], JNull)" "[]"]
    by (simp add: demo_env_def)
  have r2: "get_task_details ?e2 ''bd-5'' init_state
              = (Ret JNull, say (ErrorFetchingDetails ''bd-5'' ''no issue'') ?s1)"
    using get_task_details_cases[of ?e2 init_state "''bd-5''" "[]"
            "[]" "''no issue''" 1 JNull JNull "[]" "([], JNull)" "[]"]
    by (simp add: demo_env_def s1)
  have r3: "get_task_details ?e3 ''bd-5'' init_state = (Ret JNull, ?s1)"
    using get_task_details_cases[of ?e3 init_state "''bd-5''" "[]"
            "''oops''" "[]" 0 JNull JNull "[]" "([], JNull)" "[]"]
    by (simp add: demo_env_def s2 l)
  have r4: "get_task_details ?e4 ''bd-5'' init_state = (Ret JNull, ?s1)"
    using get_task_details_cases[of ?e4 init_state "''bd-5''" "[]"
            txt_empty_list "[]" 0 "JArr []" JNull "[]" "([], JNull)" "[]"]
    by (simp add: demo_env_def demo_strip demo_loads_show)
  have r5: "get_task_details ?e5 ''bd-5'' init_state
              = (Ret (JObj [(''id'', JStr ''bd-5''), (''issue_type'', JStr ''task''),
                            (''status'', JStr ''open'')]), ?s1)"
    using get_task_details_cases[of ?e5 init_state "''bd-5''" "[]"
            txt_show_bd5_open "[]" 0 JNull
            "JObj [(''id'', JStr ''bd-5''), (''issue_type'', JStr ''task''),
                   (''status'', JStr ''open'')]" "[]" "([], JNull)" "[]"]
    by (simp add: demo_env_def demo_strip demo_loads_show)
  have r6: "get_task_details ?e6 ''bd-5'' init_state = (Raise KeyError, ?s1)"
    using get_task_details_cases[of ?e6 init_state "''bd-5''" "[]"
            txt_error_object "[]" 0 JNull JNull "[]" "(''error'', JStr ''not found'')" "[]"]
    by (simp add: demo_env_def demo_strip demo_loads_show)
  show ?thesis
    unfolding r1 r2 r3 r4 r5 r6 by (simp add: say_def tick_def init_state_def)
qed




end
